theory Spec2Isabelle
  imports Complex_Main
begin

section \<open>Python strings and integers\<close>

text \<open>
  A Python \<open>str\<close> is modelled as a \<open>string\<close> whose characters are the code points
  below 256 (one \<open>char\<close> per code point, so \<open>length\<close> is Python's \<open>len\<close>).
  Python integers are unbounded: \<open>int\<close>.
\<close>

definition py_isspace :: "char \<Rightarrow> bool" where
  \<comment> \<open>\<open>str.isspace\<close> on one code point below 256; also the class \<open>\s\<close> of \<open>re\<close>.\<close>
  "py_isspace c =
     (let n = (of_char c :: nat)
      in (9 \<le> n \<and> n \<le> 13) \<or> (28 \<le> n \<and> n \<le> 32) \<or> n = 133 \<or> n = 160)"

definition py_strip :: "string \<Rightarrow> string" where
  \<comment> \<open>\<open>s.strip()\<close>\<close>
  "py_strip s = rev (dropWhile py_isspace (rev (dropWhile py_isspace s)))"

definition slice_index :: "nat \<Rightarrow> int \<Rightarrow> nat" where
  \<comment> \<open>how a slice bound is read against a sequence of length \<open>n\<close>: a negative bound counts
      from the end, and the result is clipped to \<open>0..n\<close>\<close>
  "slice_index n i = (if i < 0 then nat (max 0 (int n + i)) else nat (min i (int n)))"

definition py_slice :: "'a list \<Rightarrow> int \<Rightarrow> int \<Rightarrow> 'a list" where
  \<comment> \<open>\<open>xs[i:j]\<close>\<close>
  "py_slice xs i j =
     (let a = slice_index (length xs) i; b = slice_index (length xs) j
      in take (b - a) (drop a xs))"

definition py_slice_to :: "'a list \<Rightarrow> int \<Rightarrow> 'a list" where
  \<comment> \<open>\<open>xs[:k]\<close>\<close>
  "py_slice_to xs k = take (slice_index (length xs) k) xs"

definition py_rfind :: "string \<Rightarrow> char \<Rightarrow> int \<Rightarrow> int \<Rightarrow> int" where
  \<comment> \<open>\<open>text.rfind(c, i, j)\<close> for a one-character \<open>c\<close>: the highest index of \<open>c\<close> in
      \<open>text[i:j]\<close>, or \<open>-1\<close>\<close>
  "py_rfind text c i j =
     (let a = slice_index (length text) i; b = slice_index (length text) j
      in case filter (\<lambda>p. text ! p = c) (rev [a..<b]) of
           [] \<Rightarrow> -1
         | p # _ \<Rightarrow> int p)"

definition digit_char :: "nat \<Rightarrow> char" where
  \<comment> \<open>the decimal digit \<open>d\<close>, for \<open>d < 10\<close>\<close>
  "digit_char d = ''0123456789'' ! d"

fun str_nat :: "nat \<Rightarrow> string" where
  \<comment> \<open>\<open>str(n)\<close> for \<open>n \<ge> 0\<close>\<close>
  "str_nat n = (if n < 10 then [digit_char n] else str_nat (n div 10) @ [digit_char (n mod 10)])"

section \<open>chunking.py\<close>

record DocumentChunker =
  chunk_size :: int
  overlap :: int

definition DocumentChunker_init :: "int \<Rightarrow> int \<Rightarrow> DocumentChunker" where
  \<comment> \<open>\<open>__init__\<close> stores both parameters as they come\<close>
  "DocumentChunker_init cs ov = \<lparr>chunk_size = cs, overlap = ov\<rparr>"

text \<open>
  A chunk dictionary as \<open>chunk_text\<close> builds it; \<open>chunk_id\<close> and \<open>chunk_length\<close> are its
  keys \<open>"id"\<close> and \<open>"length"\<close>.
\<close>

record chunk =
  chunk_id :: string
  content :: string
  start_char :: int
  end_char :: int
  chunk_length :: nat

text \<open>The local variables of \<open>chunk_text\<close> that live across iterations.\<close>

record loop_state =
  start :: int
  chunk_count :: nat
  chunks :: "chunk list"

definition chunk_end :: "DocumentChunker \<Rightarrow> string \<Rightarrow> int \<Rightarrow> int" where
  \<comment> \<open>the value of \<open>end\<close> when the slice is taken (lines 41 to 52)\<close>
  "chunk_end self text st =
     (let end0 = min (st + chunk_size self) (int (length text))
      in if end0 < int (length text) then
           (let last_period = py_rfind text CHR ''.'' st end0;
                last_newline = py_rfind text CHR 0x0A st end0
            in if last_period > st then last_period + 1
               else if last_newline > st then last_newline + 1
               else end0)
         else end0)"

definition chunk_step :: "DocumentChunker \<Rightarrow> string \<Rightarrow> string \<Rightarrow> loop_state \<Rightarrow> loop_state" where
  \<comment> \<open>one pass through the body of the \<open>while\<close> loop\<close>
  "chunk_step self text chunk_id_prefix s =
     (let end = chunk_end self text (start s);
          chunk_text = py_strip (py_slice text (start s) end)
      in if chunk_text \<noteq> [] then
           \<lparr>start = end - overlap self,
            chunk_count = chunk_count s + 1,
            chunks = chunks s @
              [\<lparr>chunk_id = chunk_id_prefix @ ''_chunk_'' @ str_nat (chunk_count s),
                content = chunk_text,
                start_char = start s,
                end_char = end,
                chunk_length = length chunk_text\<rparr>]\<rparr>
         else
           \<lparr>start = end - overlap self, chunk_count = chunk_count s, chunks = chunks s\<rparr>)"

text \<open>
  The \<open>while\<close> loop. The source gives no bound on the number of iterations, so the loop
  is a partial function: \<open>None\<close> is a call that never returns.
\<close>

partial_function (option) chunk_loop ::
  "DocumentChunker \<Rightarrow> string \<Rightarrow> string \<Rightarrow> loop_state \<Rightarrow> chunk list option" where
  "chunk_loop self text chunk_id_prefix s =
     (if start s < int (length text)
      then chunk_loop self text chunk_id_prefix (chunk_step self text chunk_id_prefix s)
      else Some (chunks s))"

declare chunk_loop.simps [code]

definition chunk_text :: "DocumentChunker \<Rightarrow> string \<Rightarrow> string \<Rightarrow> chunk list option" where
  "chunk_text self text chunk_id_prefix =
     chunk_loop self text chunk_id_prefix \<lparr>start = 0, chunk_count = 0, chunks = []\<rparr>"

section \<open>benchmark.py\<close>

text \<open>
  Python floats and numpy's \<open>float64\<close> are idealised as \<open>real\<close>: \<open>/\<close> is exact division and
  \<open>np.log2\<close> is \<open>log 2\<close>. Python's \<open>/\<close> raises on a zero divisor, so it is a function
  into \<open>py_error + real\<close>; numpy's division does not raise.
\<close>

datatype py_error = ZeroDivisionError | TypeError | ValueError

definition py_truediv :: "real \<Rightarrow> real \<Rightarrow> py_error + real" where
  "py_truediv a b = (if b = 0 then Inl ZeroDivisionError else Inr (a / b))"

text \<open>
  One entry of the list the retriever returns; \<open>doc_id\<close> and \<open>doc_content\<close> are its keys
  \<open>"id"\<close> and \<open>"content"\<close>.
\<close>

record retrieved_doc =
  doc_id :: string
  doc_content :: string
  similarity_score :: real

definition relevant_retrieved :: "retrieved_doc list \<Rightarrow> string list \<Rightarrow> int \<Rightarrow> nat" where
  \<comment> \<open>\<open>sum(1 for rid in retrieved_ids if rid in relevant)\<close> with
      \<open>retrieved_ids = [r["id"] for r in retrieved[:k]]\<close>\<close>
  "relevant_retrieved retrieved relevant k =
     (let retrieved_ids = map doc_id (py_slice_to retrieved k)
      in length (filter (\<lambda>rid. rid \<in> set relevant) retrieved_ids))"

definition calculate_precision_at_k ::
  "retrieved_doc list \<Rightarrow> string list \<Rightarrow> int \<Rightarrow> py_error + real" where
  "calculate_precision_at_k retrieved relevant k =
     (if k > 0 then py_truediv (real (relevant_retrieved retrieved relevant k)) (of_int k)
      else Inr 0)"

definition calculate_recall_at_k ::
  "retrieved_doc list \<Rightarrow> string list \<Rightarrow> int \<Rightarrow> py_error + real" where
  "calculate_recall_at_k retrieved relevant k =
     (if length relevant > 0
      then py_truediv (real (relevant_retrieved retrieved relevant k)) (real (length relevant))
      else Inr 0)"

fun mrr_loop :: "nat \<Rightarrow> retrieved_doc list \<Rightarrow> string list \<Rightarrow> py_error + real" where
  \<comment> \<open>\<open>for rank, result in enumerate(retrieved, rank)\<close>\<close>
  "mrr_loop rank [] relevant = Inr 0"
| "mrr_loop rank (result # rest) relevant =
     (if doc_id result \<in> set relevant then py_truediv 1 (real rank)
      else mrr_loop (rank + 1) rest relevant)"

definition calculate_mrr :: "retrieved_doc list \<Rightarrow> string list \<Rightarrow> py_error + real" where
  "calculate_mrr retrieved relevant = mrr_loop 1 retrieved relevant"

fun dcg_loop :: "real \<Rightarrow> nat \<Rightarrow> retrieved_doc list \<Rightarrow> string list \<Rightarrow> real" where
  \<comment> \<open>the \<open>for\<close> loop that accumulates \<open>dcg\<close>, started at \<open>rank\<close>\<close>
  "dcg_loop dcg rank [] relevant = dcg"
| "dcg_loop dcg rank (result # rest) relevant =
     dcg_loop (if doc_id result \<in> set relevant then dcg + 1 / log 2 (real rank + 1) else dcg)
       (rank + 1) rest relevant"

definition py_range :: "int \<Rightarrow> int \<Rightarrow> int list" where
  \<comment> \<open>\<open>range(a, b)\<close>\<close>
  "py_range a b = [a..b - 1]"

definition ideal_dcg :: "string list \<Rightarrow> int \<Rightarrow> real" where
  \<comment> \<open>\<open>idcg\<close>\<close>
  "ideal_dcg relevant k =
     sum_list (map (\<lambda>rank. 1 / log 2 (of_int rank + 1))
                   (py_range 1 (min (int (length relevant)) k + 1)))"

definition calculate_ndcg :: "retrieved_doc list \<Rightarrow> string list \<Rightarrow> int \<Rightarrow> real" where
  "calculate_ndcg retrieved relevant k =
     (let dcg = dcg_loop 0 1 (py_slice_to retrieved k) relevant;
          idcg = ideal_dcg relevant k
      in if idcg > 0 then dcg / idcg else 0)"

text \<open>The dictionary \<open>evaluate_query\<close> builds for one query.\<close>

record metrics =
  query :: string
  num_relevant :: nat
  num_retrieved :: nat
  precision_at_5 :: real
  precision_at_10 :: real
  recall_at_5 :: real
  recall_at_10 :: real
  mrr :: real
  ndcg_at_5 :: real
  ndcg_at_10 :: real
  avg_similarity_score :: real

text \<open>The benchmark object: its accumulator \<open>self.results\<close>. The retriever is a parameter.\<close>

record RAGBenchmark =
  results :: "metrics list"

definition np_mean :: "real list \<Rightarrow> real" where
  "np_mean xs = sum_list xs / real (length xs)"

definition bind_err :: "py_error + 'a \<Rightarrow> ('a \<Rightarrow> py_error + 'b) \<Rightarrow> py_error + 'b" where
  \<comment> \<open>an exception raised while an entry is computed leaves the function\<close>
  "bind_err m f = (case m of Inl e \<Rightarrow> Inl e | Inr v \<Rightarrow> f v)"

definition evaluate_query ::
  "(string \<Rightarrow> int \<Rightarrow> retrieved_doc list) \<Rightarrow> RAGBenchmark \<Rightarrow> string \<Rightarrow> string list \<Rightarrow> int
     \<Rightarrow> py_error + (metrics \<times> RAGBenchmark)" where
  "evaluate_query retrieve self q relevant_ids k =
     (let retrieved = retrieve q (k * 2)
      in bind_err (calculate_precision_at_k retrieved relevant_ids 5) (\<lambda>p5.
         bind_err (calculate_precision_at_k retrieved relevant_ids 10) (\<lambda>p10.
         bind_err (calculate_recall_at_k retrieved relevant_ids 5) (\<lambda>r5.
         bind_err (calculate_recall_at_k retrieved relevant_ids 10) (\<lambda>r10.
         bind_err (calculate_mrr retrieved relevant_ids) (\<lambda>m.
           (let ms = \<lparr>query = q,
                        num_relevant = length relevant_ids,
                        num_retrieved = length retrieved,
                        precision_at_5 = p5,
                        precision_at_10 = p10,
                        recall_at_5 = r5,
                        recall_at_10 = r10,
                        mrr = m,
                        ndcg_at_5 = calculate_ndcg retrieved relevant_ids 5,
                        ndcg_at_10 = calculate_ndcg retrieved relevant_ids 10,
                        avg_similarity_score =
                          (if retrieved \<noteq> [] then np_mean (map similarity_score retrieved)
                           else 0)\<rparr>
            in Inr (ms, self\<lparr>results := results self @ [ms]\<rparr>))))))))"

record aggregated =
  total_queries :: nat
  avg_precision_at_5 :: real
  avg_precision_at_10 :: real
  avg_recall_at_5 :: real
  avg_recall_at_10 :: real
  avg_mrr :: real
  avg_ndcg_at_5 :: real
  avg_ndcg_at_10 :: real
  avg_avg_similarity_score :: real

text \<open>
  In \<open>aggregated\<close>, \<open>avg_avg_similarity_score\<close> is the key \<open>"avg_similarity_score"\<close> of the
  aggregate. \<open>round(x, 4)\<close> on a \<open>float64\<close> depends on the binary value of \<open>x\<close>, which a real
  number does not have: the rounding is the parameter \<open>round4\<close>. \<open>get_aggregated_metrics\<close> returns a dictionary in both branches: \<open>Inl msg\<close> is the
  dictionary \<open>{"error": msg}\<close>, \<open>Inr a\<close> the dictionary of averages. The benchmark object
  is returned beside it, as the call leaves it.
\<close>

definition get_aggregated_metrics ::
  "(real \<Rightarrow> real) \<Rightarrow> RAGBenchmark \<Rightarrow> (string + aggregated) \<times> RAGBenchmark" where
  "get_aggregated_metrics round4 self =
     (if results self = [] then (Inl ''No results to aggregate'', self)
      else
        (let n_queries = length (results self);
             avg = (\<lambda>field. round4 (np_mean (map field (results self))))
         in (Inr \<lparr>total_queries = n_queries,
                   avg_precision_at_5 = avg precision_at_5,
                   avg_precision_at_10 = avg precision_at_10,
                   avg_recall_at_5 = avg recall_at_5,
                   avg_recall_at_10 = avg recall_at_10,
                   avg_mrr = avg mrr,
                   avg_ndcg_at_5 = avg ndcg_at_5,
                   avg_ndcg_at_10 = avg ndcg_at_10,
                   avg_avg_similarity_score = avg avg_similarity_score\<rparr>, self)))"

fun evaluate_queries ::
  "(string \<Rightarrow> int \<Rightarrow> retrieved_doc list) \<Rightarrow> RAGBenchmark \<Rightarrow> (string \<times> string list) list
     \<Rightarrow> py_error + RAGBenchmark" where
  \<comment> \<open>the \<open>for\<close> loop of \<open>evaluate_multiple_queries\<close>\<close>
  "evaluate_queries retrieve self [] = Inr self"
| "evaluate_queries retrieve self ((q, relevant_ids) # rest) =
     bind_err (evaluate_query retrieve self q relevant_ids 5)
       (\<lambda>(ms, self'). evaluate_queries retrieve self' rest)"

definition evaluate_multiple_queries ::
  "(real \<Rightarrow> real) \<Rightarrow> (string \<Rightarrow> int \<Rightarrow> retrieved_doc list) \<Rightarrow> RAGBenchmark
     \<Rightarrow> (string \<times> string list) list \<Rightarrow> py_error + ((string + aggregated) \<times> RAGBenchmark)" where
  "evaluate_multiple_queries round4 retrieve self query_relevance_pairs =
     bind_err (evaluate_queries retrieve self query_relevance_pairs)
       (\<lambda>self'. Inr (get_aggregated_metrics round4 self'))"

text \<open>What the item at index \<open>i\<close> adds to \<open>dcg\<close> when the loop starts at \<open>rank\<close>.\<close>

definition gain :: "string list \<Rightarrow> nat \<Rightarrow> retrieved_doc list \<Rightarrow> nat \<Rightarrow> real" where
  "gain rel rank xs i =
     (if doc_id (xs ! i) \<in> set rel then 1 / log 2 (real (rank + i) + 1) else 0)"

section \<open>metadata_extraction.py\<close>

subsection \<open>The regular expressions of module re that the extractor uses\<close>

text \<open>
  The patterns of the source are built from literals, the classes \<open>\s\<close> and \<open>\d\<close> (alone
  or under \<open>*\<close> and \<open>+\<close>), sequence, alternation, the greedy \<open>?\<close> and capturing groups that
  are neither nested nor repeated. \<open>NoChar\<close> stands for a literal above code point 255
  (the en dash of the range patterns), which no text of the model contains.
\<close>

datatype cclass = Space | Digit

datatype regex =
    Eps
  | Lit char
  | NoChar
  | Cls cclass
  | Star cclass
  | Plus cclass
  | Seq regex regex
  | Alt regex regex
  | Opt regex
  | Group regex

definition char_lower :: "char \<Rightarrow> char" where
  \<comment> \<open>\<open>c.lower()\<close> for a code point below 256\<close>
  "char_lower c =
     (let n = (of_char c :: nat)
      in if (65 \<le> n \<and> n \<le> 90) \<or> (192 \<le> n \<and> n \<le> 222 \<and> n \<noteq> 215)
         then char_of (n + 32) else c)"

definition py_lower :: "string \<Rightarrow> string" where
  \<comment> \<open>\<open>s.lower()\<close>\<close>
  "py_lower s = map char_lower s"

fun cclass_has :: "cclass \<Rightarrow> char \<Rightarrow> bool" where
  "cclass_has Space c = py_isspace c"
| "cclass_has Digit c = (48 \<le> (of_char c :: nat) \<and> (of_char c :: nat) \<le> 57)"

text \<open>
  A matcher state is the rest of the text and the groups captured so far. \<open>rmatch\<close> lists
  the states in which a pattern can end, in the order in which the backtracking matcher
  of \<open>re\<close> tries them (greedy repetitions longest first, alternatives left to right);
  literals are compared as under \<open>re.IGNORECASE\<close>.
\<close>

type_synonym mstate = "string \<times> string list"

fun rmatch :: "regex \<Rightarrow> mstate \<Rightarrow> mstate list" where
  "rmatch Eps st = [st]"
| "rmatch (Lit c) (s, caps) =
     (case s of [] \<Rightarrow> []
      | d # t \<Rightarrow> if char_lower d = char_lower c then [(t, caps)] else [])"
| "rmatch NoChar st = []"
| "rmatch (Cls k) (s, caps) =
     (case s of [] \<Rightarrow> []
      | d # t \<Rightarrow> if cclass_has k d then [(t, caps)] else [])"
| "rmatch (Star k) (s, caps) =
     map (\<lambda>n. (drop n s, caps)) (rev [0..<Suc (length (takeWhile (cclass_has k) s))])"
| "rmatch (Plus k) (s, caps) =
     map (\<lambda>n. (drop n s, caps)) (rev [1..<Suc (length (takeWhile (cclass_has k) s))])"
| "rmatch (Seq a b) st = concat (map (rmatch b) (rmatch a st))"
| "rmatch (Alt a b) st = rmatch a st @ rmatch b st"
| "rmatch (Opt a) st = rmatch a st @ [st]"
| "rmatch (Group a) (s, caps) =
     map (\<lambda>(t, caps'). (t, caps' @ [take (length s - length t) s])) (rmatch a (s, caps))"

fun ngroups :: "regex \<Rightarrow> nat" where
  "ngroups (Seq a b) = ngroups a + ngroups b"
| "ngroups (Alt a b) = ngroups a + ngroups b"
| "ngroups (Opt a) = ngroups a"
| "ngroups (Group a) = Suc (ngroups a)"
| "ngroups r = 0"

text \<open>
  An item of the list \<open>re.findall\<close> returns: the tuple of the groups when the pattern has
  two groups or more, the text of the group when it has one, the whole match when it
  has none.
\<close>

datatype match = MStr string | MTuple "string list"

definition match_item :: "regex \<Rightarrow> string \<Rightarrow> mstate \<Rightarrow> match" where
  "match_item r s st =
     (if ngroups r = 0 then MStr (take (length s - length (fst st)) s)
      else if ngroups r = 1 then MStr (hd (snd st))
      else MTuple (snd st))"

fun findall_scan :: "regex \<Rightarrow> nat \<Rightarrow> string \<Rightarrow> match list" where
  \<comment> \<open>the scan of \<open>re.findall\<close> from left to right; \<open>skip\<close> counts the characters still
      covered by the match found last (no pattern of the source matches the empty
      string)\<close>
  "findall_scan r skip [] =
     (if skip = 0 then
        (case rmatch r ([], []) of [] \<Rightarrow> [] | st # _ \<Rightarrow> [match_item r [] st])
      else [])"
| "findall_scan r skip (c # cs) =
     (if skip > 0 then findall_scan r (skip - 1) cs
      else
        (case rmatch r (c # cs, []) of
           [] \<Rightarrow> findall_scan r 0 cs
         | st # _ \<Rightarrow>
             match_item r (c # cs) st #
               findall_scan r (length (c # cs) - length (fst st) - 1) cs))"

definition findall :: "regex \<Rightarrow> string \<Rightarrow> match list" where
  \<comment> \<open>\<open>re.findall(pattern, text, re.IGNORECASE)\<close>\<close>
  "findall r text = findall_scan r 0 text"

definition seqs :: "regex list \<Rightarrow> regex" where
  "seqs rs = foldr Seq rs Eps"

definition lits :: "string \<Rightarrow> regex" where
  \<comment> \<open>a word of the pattern, letter by letter\<close>
  "lits s = seqs (map Lit s)"

fun alts :: "regex list \<Rightarrow> regex" where
  "alts [] = NoChar"
| "alts [r] = r"
| "alts (r # rs) = Alt r (alts rs)"

definition number_re :: regex where
  \<comment> \<open>\<open>\d+\.?\d*\<close>\<close>
  "number_re = seqs [Plus Digit, Opt (Lit CHR ''.''), Star Digit]"

definition fraction_re :: regex where
  \<comment> \<open>\<open>0\.\d+\<close>\<close>
  "fraction_re = seqs [Lit CHR ''0'', Lit CHR ''.'', Plus Digit]"

definition ph_patterns :: "regex list" where
  \<comment> \<open>\<open>pH\s*(?:=|:|between|of)?\s*(\d+\.?\d*)\s*(?:EN DASH|-|to)?\s*(\d+\.?\d*)\<close> and
      \<open>pH\s*(?:=|:|of)?\s*(\d+\.?\d*)\<close>\<close>
  "ph_patterns =
     [seqs [lits ''pH'', Star Space,
            Opt (alts [Lit CHR ''='', Lit CHR '':'', lits ''between'', lits ''of'']),
            Star Space, Group number_re, Star Space,
            Opt (alts [NoChar, Lit CHR ''-'', lits ''to'']),
            Star Space, Group number_re],
      seqs [lits ''pH'', Star Space,
            Opt (alts [Lit CHR ''='', Lit CHR '':'', lits ''of'']),
            Star Space, Group number_re]]"

definition aw_keyword :: regex where
  \<comment> \<open>\<open>(?:aW|aw|water\s*activity)\<close>\<close>
  "aw_keyword = alts [lits ''aW'', lits ''aw'', seqs [lits ''water'', Star Space, lits ''activity'']]"

definition aw_patterns :: "regex list" where
  \<comment> \<open>\<open>(?:aW|aw|water\s*activity)\s*(?:=|:|between|of)?\s*(0\.\d+)\s*(?:EN DASH|-|to)?\s*(0\.\d+)\<close>
      and \<open>(?:aW|aw|water\s*activity)\s*(?:=|:|of)?\s*(0\.\d+)\<close>\<close>
  "aw_patterns =
     [seqs [aw_keyword, Star Space,
            Opt (alts [Lit CHR ''='', Lit CHR '':'', lits ''between'', lits ''of'']),
            Star Space, Group fraction_re, Star Space,
            Opt (alts [NoChar, Lit CHR ''-'', lits ''to'']),
            Star Space, Group fraction_re],
      seqs [aw_keyword, Star Space,
            Opt (alts [Lit CHR ''='', Lit CHR '':'', lits ''of'']),
            Star Space, Group fraction_re]]"

definition concentration_pattern :: regex where
  \<comment> \<open>\<open>(\d+\.?\d*)\s*(ppm|mg/kg|%|g/kg|MICRO L/g)\<close>, the micro sign being code point 181\<close>
  "concentration_pattern =
     seqs [Group number_re, Star Space,
           Group (alts [lits ''ppm'', lits ''mg/kg'', Lit CHR ''%'', lits ''g/kg'',
                        lits (CHR 0xB5 # ''L/g'')])]"

subsection \<open>float\<close>

text \<open>
  \<open>float(s)\<close> on the strings a group of these patterns can hold, and on their one-character
  pieces: digits with at most one point. Such a string is a number when it has a digit;
  its value is the decimal it spells. (The other spellings \<open>float\<close> accepts, with a sign,
  an exponent or blanks, have characters no group captures.)
\<close>

definition digits_value :: "string \<Rightarrow> nat" where
  "digits_value ds = foldl (\<lambda>n c. 10 * n + (of_char c - 48)) 0 ds"

definition py_float :: "string \<Rightarrow> py_error + real" where
  "py_float s =
     (let ip = takeWhile (cclass_has Digit) s;
          rest = dropWhile (cclass_has Digit) s;
          fp = (case rest of [] \<Rightarrow> [] | c # t \<Rightarrow> t)
      in if (rest = [] \<or> hd rest = CHR ''.'') \<and> list_all (cclass_has Digit) fp \<and> ip @ fp \<noteq> []
         then Inr (real (digits_value ip) + real (digits_value fp) / 10 ^ length fp)
         else Inl ValueError)"

subsection \<open>The extractor\<close>

text \<open>
  The dictionaries the rules return: \<open>Range a b\<close> is \<open>{"ph_min": a, "ph_max": b}\<close> (or the
  \<open>aw\<close> keys), \<open>Single v\<close> is \<open>{"ph_value": v}\<close> (or \<open>"aw_value"\<close>).
\<close>

datatype measurement = Range real real | Single real

record concentration =
  concentration_value :: real
  concentration_unit :: string

record MetadataExtractor =
  microorganisms :: "string list"

definition MetadataExtractor_init :: MetadataExtractor where
  "MetadataExtractor_init =
     \<lparr>microorganisms =
        [''Zygosaccharomyces bailii'', ''E. coli'', ''Salmonella'', ''Listeria'',
         ''Staphylococcus aureus'', ''Clostridium'', ''Pseudomonas'', ''Bacillus'',
         ''levadura'', ''bacteria'', ''hongo'', ''moho'',
         ''pat'' @ CHR 0xF3 # ''geno'']\<rparr>"

definition match_len :: "match \<Rightarrow> nat" where
  \<comment> \<open>\<open>len(m)\<close>\<close>
  "match_len m = (case m of MStr s \<Rightarrow> length s | MTuple l \<Rightarrow> length l)"

definition match_at :: "match \<Rightarrow> nat \<Rightarrow> string" where
  \<comment> \<open>\<open>m[i]\<close> for \<open>i < len(m)\<close>: an element of the tuple, or one character of the string\<close>
  "match_at m i = (case m of MStr s \<Rightarrow> [s ! i] | MTuple l \<Rightarrow> l ! i)"

fun extract_measurement :: "regex list \<Rightarrow> string \<Rightarrow> measurement option" where
  \<comment> \<open>the loop \<open>for pattern in patterns\<close> shared by \<open>extract_ph_range\<close> and \<open>extract_aw\<close>;
      an exception caught by \<open>except\<close> goes on with the next pattern\<close>
  "extract_measurement [] text = None"
| "extract_measurement (pattern # rest) text =
     (case findall pattern text of
        [] \<Rightarrow> extract_measurement rest text
      | m0 # _ \<Rightarrow>
          if match_len m0 = 2 then
            (case (py_float (match_at m0 0), py_float (match_at m0 1)) of
               (Inr lo, Inr hi) \<Rightarrow> Some (Range lo hi)
             | _ \<Rightarrow> extract_measurement rest text)
          else
            (case m0 of
               MStr s \<Rightarrow>
                 (case py_float s of
                    Inr v \<Rightarrow> Some (Single v)
                  | Inl e \<Rightarrow> extract_measurement rest text)
             | MTuple l \<Rightarrow> extract_measurement rest text))"

definition extract_ph_range :: "MetadataExtractor \<Rightarrow> string \<Rightarrow> measurement option" where
  "extract_ph_range self text = extract_measurement ph_patterns text"

definition extract_aw :: "MetadataExtractor \<Rightarrow> string \<Rightarrow> measurement option" where
  "extract_aw self text = extract_measurement aw_patterns text"

definition extract_concentration ::
  "MetadataExtractor \<Rightarrow> string \<Rightarrow> py_error + concentration option" where
  "extract_concentration self text =
     (case findall concentration_pattern text of
        [] \<Rightarrow> Inr None
      | m0 # _ \<Rightarrow>
          bind_err (py_float (match_at m0 0))
            (\<lambda>v. Inr (Some \<lparr>concentration_value = v, concentration_unit = match_at m0 1\<rparr>)))"

fun py_contains :: "string \<Rightarrow> string \<Rightarrow> bool" where
  \<comment> \<open>\<open>sub in text\<close>\<close>
  "py_contains sub [] = (sub = [])"
| "py_contains sub (c # cs) = (take (length sub) (c # cs) = sub \<or> py_contains sub cs)"

definition find_names :: "string list \<Rightarrow> string \<Rightarrow> string list option" where
  \<comment> \<open>the loop that appends to \<open>found\<close>, and \<open>found if found else None\<close>\<close>
  "find_names names text =
     (let found = filter (\<lambda>name. py_contains (py_lower name) (py_lower text)) names
      in if found \<noteq> [] then Some found else None)"

definition extract_microorganism :: "MetadataExtractor \<Rightarrow> string \<Rightarrow> string list option" where
  "extract_microorganism self text = find_names (microorganisms self) text"

definition conservants_list :: "string list" where
  "conservants_list =
     [''benzoato'', ''sorbato'', ''nisina'', ''extracto'', ''aceite esencial'',
      ''essential oil'', ''eugenol'', ''carvacrol'', ''timol'',
      CHR 0xE1 # ''cido s'' @ CHR 0xF3 # ''rbico'',
      CHR 0xE1 # ''cido benzoico'']"

definition extract_conservant :: "MetadataExtractor \<Rightarrow> string \<Rightarrow> string list option" where
  "extract_conservant self text = find_names conservants_list text"

text \<open>The dictionary \<open>metadata\<close>; \<open>found_microorganisms\<close> is its key \<open>"microorganisms"\<close>.\<close>

record extracted_metadata =
  ph :: "measurement option"
  aw :: "measurement option"
  concentration :: "concentration option"
  found_microorganisms :: "string list option"
  conservants :: "string list option"
  has_numeric_data :: bool

definition extract_metadata ::
  "MetadataExtractor \<Rightarrow> string \<Rightarrow> py_error + extracted_metadata" where
  \<comment> \<open>the dictionary \<open>metadata\<close> of \<open>extract_chunk_metadata\<close>, entry by entry\<close>
  "extract_metadata self text =
     bind_err (extract_concentration self text) (\<lambda>conc.
     bind_err (extract_concentration self text) (\<lambda>conc'.
       Inr \<lparr>ph = extract_ph_range self text,
            aw = extract_aw self text,
            concentration = conc,
            found_microorganisms = extract_microorganism self text,
            conservants = extract_conservant self text,
            has_numeric_data = (conc' \<noteq> None)\<rparr>))"

text \<open>
  Chunks are dictionaries, and dictionaries are objects: a heap is the list of the
  dictionaries that exist, an object's address its index. \<open>extract_chunk_metadata\<close> reads
  the chunk at an address and returns the address of the dictionary it creates with
  \<open>{**chunk, "extracted_metadata": metadata}\<close>.
\<close>

datatype pyval = PStr string | PInt int | PMeta extracted_metadata

type_synonym pydict = "string \<rightharpoonup> pyval"

type_synonym heap = "pydict list"

definition chunk_content :: "pydict \<Rightarrow> py_error + string" where
  \<comment> \<open>\<open>chunk.get("content", "")\<close>, as \<open>re.findall\<close> takes it: anything but a string is a
      \<open>TypeError\<close>\<close>
  "chunk_content c =
     (case c ''content'' of
        None \<Rightarrow> Inr []
      | Some (PStr s) \<Rightarrow> Inr s
      | Some _ \<Rightarrow> Inl TypeError)"

definition extract_chunk_metadata ::
  "MetadataExtractor \<Rightarrow> heap \<Rightarrow> nat \<Rightarrow> py_error + (heap \<times> nat)" where
  "extract_chunk_metadata self h chunk =
     bind_err (chunk_content (h ! chunk)) (\<lambda>text.
     bind_err (extract_metadata self text) (\<lambda>metadata.
       Inr (h @ [(h ! chunk)(''extracted_metadata'' \<mapsto> PMeta metadata)], length h)))"


section \<open>Properties of chunk_text\<close>

lemma slice_index_le: "slice_index n i \<le> n"
  unfolding slice_index_def by auto

lemma py_rfind_lt: "py_rfind t c i j < int (length t)"
proof (cases "filter (\<lambda>p. t ! p = c) (rev [slice_index (length t) i..<slice_index (length t) j])")
  case Nil
  then show ?thesis by (simp add: py_rfind_def)
next
  case (Cons p ps)
  then have "p \<in> set (filter (\<lambda>p. t ! p = c)
      (rev [slice_index (length t) i..<slice_index (length t) j]))"
    by simp
  then have "p < slice_index (length t) j" by simp
  with slice_index_le [of "length t" j] have "p < length t" by simp
  with Cons show ?thesis by (simp add: py_rfind_def)
qed

text \<open>The end of a slice never lies beyond the end of the text.\<close>

lemma chunk_end_le: "chunk_end self t st \<le> int (length t)"
proof -
  have a: "\<And>c j. py_rfind t c st j + 1 \<le> int (length t)"
    using py_rfind_lt [of t] by (simp add: add1_zle_eq)
  show ?thesis
    unfolding chunk_end_def Let_def by (simp add: a min_def)
qed

lemma start_chunk_step:
  "start (chunk_step self t p s) = chunk_end self t (start s) - overlap self"
  by (simp add: chunk_step_def Let_def)

text \<open>
  A set of loop states that one pass never leaves, and in which the loop condition holds,
  is never left: a run started in it does not return.
\<close>

lemma chunk_loop_invariant:
  assumes inv: "\<And>s. I s \<Longrightarrow> start s < int (length t) \<and> I (chunk_step self t p s)"
    and s0: "I s0"
  shows "chunk_loop self t p s0 = None"
proof (cases "chunk_loop self t p s0")
  case None
  then show ?thesis .
next
  case (Some y)
  have "\<not> (self = self \<and> t = t \<and> p = p \<and> I s0)"
  proof (rule chunk_loop.raw_induct
      [where P = "\<lambda>self' t' p' s y. \<not> (self' = self \<and> t' = t \<and> p' = p \<and> I s)", OF _ Some])
    fix f :: "DocumentChunker \<Rightarrow> string \<Rightarrow> string \<Rightarrow> loop_state \<Rightarrow> chunk list option"
    fix self' t' p' s y
    assume IH: "\<And>self' t' p' s y. f self' t' p' s = Some y \<Longrightarrow>
      \<not> (self' = self \<and> t' = t \<and> p' = p \<and> I s)"
    assume body: "(if start s < int (length t') then f self' t' p' (chunk_step self' t' p' s)
      else Some (chunks s)) = Some y"
    show "\<not> (self' = self \<and> t' = t \<and> p' = p \<and> I s)"
    proof
      assume a: "self' = self \<and> t' = t \<and> p' = p \<and> I s"
      with inv [of s] have lt: "start s < int (length t)" and nx: "I (chunk_step self t p s)"
        by simp_all
      from body a lt have "f self t p (chunk_step self t p s) = Some y" by simp
      from IH [OF this] nx show False by simp
    qed
  qed
  with s0 show ?thesis by simp
qed

text \<open>
  With a positive overlap the next \<open>start\<close> is \<open>end - overlap < len(text)\<close>, so a loop
  that has been entered is never left.
\<close>

lemma chunk_loop_diverges:
  assumes "0 < overlap self" "start s < int (length t)"
  shows "chunk_loop self t p s = None"
proof (rule chunk_loop_invariant [where I = "\<lambda>s. start s < int (length t)"])
  fix s :: loop_state
  assume "start s < int (length t)"
  then show "start s < int (length t) \<and> start (chunk_step self t p s) < int (length t)"
    using assms(1) chunk_end_le [of self t "start s"] by (simp add: start_chunk_step)
qed (rule assms(2))

lemma chunk_text_diverges:
  "0 < overlap self \<Longrightarrow> t \<noteq> [] \<Longrightarrow> chunk_text self t p = None"
  unfolding chunk_text_def by (rule chunk_loop_diverges) simp_all

lemma chunk_text_empty: "chunk_text self [] p = Some []"
  by (simp add: chunk_text_def chunk_loop.simps)

lemma chunk_text_short:
  assumes "t \<noteq> []" "int (length t) < chunk_size self" "overlap self = 0"
  shows "chunk_text self t p = Some (if py_strip t = [] then [] else
     [\<lparr>chunk_id = p @ ''_chunk_0'', content = py_strip t, start_char = 0,
       end_char = int (length t), chunk_length = length (py_strip t)\<rparr>])"
proof -
  let ?s0 = "\<lparr>start = 0, chunk_count = 0, chunks = []\<rparr>"
  let ?s1 = "chunk_step self t p ?s0"
  have e: "chunk_end self t 0 = int (length t)"
    using assms by (simp add: chunk_end_def)
  have sl: "py_slice t 0 (int (length t)) = t"
    by (simp add: py_slice_def slice_index_def)
  have st: "start ?s1 = int (length t)"
    using assms by (simp add: start_chunk_step e)
  have ch: "chunks ?s1 = (if py_strip t = [] then [] else
     [\<lparr>chunk_id = p @ ''_chunk_0'', content = py_strip t, start_char = 0,
       end_char = int (length t), chunk_length = length (py_strip t)\<rparr>])"
    by (simp add: chunk_step_def e sl Let_def digit_char_def)
  have "chunk_loop self t p ?s0 = chunk_loop self t p ?s1"
    using assms by (subst chunk_loop.simps) simp
  also have "\<dots> = Some (chunks ?s1)"
    by (subst chunk_loop.simps) (simp add: st)
  finally show ?thesis
    by (simp add: chunk_text_def ch)
qed









text \<open>
  C1. The claim is that \<open>chunk_text\<close> returns for every text when \<open>chunk_size > 0\<close> and
  \<open>0 \<le> overlap < chunk_size\<close>. With the default configuration (\<open>chunk_size = 500\<close>,
  \<open>overlap = 50\<close>) and the one-character text \<open>a\<close> the call never returns: the slice
  reaches the end of the text, \<open>start\<close> becomes \<open>1 - 50\<close>, every later pass ends at the end
  of the text again and the loop condition stays true.
\<close>

theorem chunk_text_default_config_never_returns:
  "chunk_text (DocumentChunker_init 500 50) ''a'' [] = None"
  by (rule chunk_text_diverges) (simp_all add: DocumentChunker_init_def)




text \<open>
  C6, as stated: every non-empty text shorter than \<open>chunk_size\<close> gives exactly one chunk.
  A text of one space, with \<open>chunk_size = 5\<close> and \<open>overlap = 0\<close>, gives none: the slice is
  empty after \<open>strip()\<close> and is not appended.
\<close>

theorem short_text_counterexample:
  "chunk_text (DocumentChunker_init 5 0) '' '' ''p'' = Some []"
  by code_simp

text \<open>
  C6, amended: the empty text gives the empty list. With \<open>overlap = 0\<close>, a non-empty text
  shorter than \<open>chunk_size\<close> gives one chunk that starts at 0, ends at \<open>len(text)\<close> and
  holds the text without its leading and trailing whitespace, when that is not empty;
  and no chunk when the text is whitespace only.
\<close>

theorem chunk_text_edge_cases:
  "chunk_text self [] p = Some [] \<and>
   (t \<noteq> [] \<and> int (length t) < chunk_size self \<and> overlap self = 0 \<longrightarrow>
      chunk_text self t p =
        Some (if py_strip t = [] then []
              else [\<lparr>chunk_id = p @ ''_chunk_0'', content = py_strip t, start_char = 0,
                      end_char = int (length t), chunk_length = length (py_strip t)\<rparr>]))"
  using chunk_text_short [of t self p] by (simp add: chunk_text_empty)

theorem chunk_text_edge_cases_witness:
  "chunk_text (DocumentChunker_init 10 0) [] ''doc'' = Some [] \<and>
   '' ab. '' \<noteq> [] \<and> int (length '' ab. '') < chunk_size (DocumentChunker_init 10 0) \<and>
   overlap (DocumentChunker_init 10 0) = 0 \<and>
   chunk_text (DocumentChunker_init 10 0) '' ab. '' ''doc'' =
     Some [\<lparr>chunk_id = ''doc_chunk_0'', content = ''ab.'', start_char = 0, end_char = 5,
             chunk_length = 3\<rparr>]"
  using chunk_text_edge_cases [of "DocumentChunker_init 10 0" "''doc''" "'' ab. ''"]
  by (simp add: DocumentChunker_init_def py_strip_def py_isspace_def)

section \<open>Properties of the metrics\<close>

lemma relevant_retrieved_cong:
  "set rel = set rel' \<Longrightarrow> relevant_retrieved r rel k = relevant_retrieved r rel' k"
  by (simp add: relevant_retrieved_def)

lemma mrr_loop_cong: "set rel = set rel' \<Longrightarrow> mrr_loop n r rel = mrr_loop n r rel'"
  by (induction r arbitrary: n) simp_all

lemma dcg_loop_cong: "set rel = set rel' \<Longrightarrow> dcg_loop a n r rel = dcg_loop a n r rel'"
  by (induction r arbitrary: a n) simp_all

lemma mrr_loop_none:
  "\<forall>r \<in> set retrieved. doc_id r \<notin> set relevant \<Longrightarrow> mrr_loop n retrieved relevant = Inr 0"
  by (induction retrieved arbitrary: n) simp_all

lemma dcg_loop_sum:
  "dcg_loop acc rank xs rel = acc + (\<Sum>i<length xs. gain rel rank xs i)"
proof (induction xs arbitrary: acc rank)
  case Nil
  then show ?case by simp
next
  case (Cons x xs)
  have "(\<Sum>i<length (x # xs). gain rel rank (x # xs) i)
      = gain rel rank (x # xs) 0 + (\<Sum>i<length xs. gain rel rank (x # xs) (Suc i))"
    unfolding length_Cons by (rule sum.lessThan_Suc_shift)
  also have "(\<Sum>i<length xs. gain rel rank (x # xs) (Suc i)) = (\<Sum>i<length xs. gain rel (rank + 1) xs i)"
    by (rule sum.cong) (simp_all add: gain_def algebra_simps)
  finally show ?case
    by (simp add: Cons.IH gain_def)
qed

lemma discount_antimono:
  assumes "i \<le> j"
  shows "1 / log 2 (real (Suc j) + 1) \<le> 1 / log 2 (real (Suc i) + 1)"
proof -
  have "log 2 (real (Suc i) + 1) \<le> log 2 (real (Suc j) + 1)"
    using assms by simp
  moreover have "0 < log 2 (real (Suc i) + 1)"
    by simp
  ultimately show ?thesis
    by (simp add: frac_le)
qed

lemma sum_split_two:
  fixes f :: "nat \<Rightarrow> real"
  assumes "i < m" "j < m" "i \<noteq> j"
  shows "sum f {..<m} = f i + (f j + sum f ({..<m} - {i} - {j}))"
  using assms by (simp add: sum.remove [of _ i] sum.remove [of _ j])

lemma dcg_swap:
  assumes ij: "i < j" and jn: "j < length xs" and rj: "doc_id (xs ! j) \<in> set rel"
  shows "(\<Sum>x<m. gain rel 1 (take m xs) x) \<le> (\<Sum>x<m. gain rel 1 (take m (xs[i := xs ! j, j := xs ! i])) x)"
proof -
  let ?ys = "xs[i := xs ! j, j := xs ! i]"
  let ?g = "\<lambda>zs x. if doc_id (zs ! x) \<in> set rel then 1 / log 2 (real (Suc x) + 1) else 0"
  have gx: "\<And>zs. (\<Sum>x<m. gain rel 1 (take m zs) x) = (\<Sum>x<m. ?g zs x)"
    by (rule sum.cong) (simp_all add: gain_def)
  have yi: "?ys ! i = xs ! j" using ij jn by simp
  have yj: "?ys ! j = xs ! i" using ij jn by simp
  have yo: "\<And>x. x \<noteq> i \<Longrightarrow> x \<noteq> j \<Longrightarrow> ?ys ! x = xs ! x" by simp
  have dpos: "\<And>x. 0 \<le> 1 / log 2 (real (Suc x) + 1)" by simp
  show ?thesis
  proof (cases "j < m \<and> doc_id (xs ! i) \<notin> set rel")
    case False
    have "\<And>x. x < m \<Longrightarrow> ?g xs x \<le> ?g ?ys x"
    proof -
      fix x assume xm: "x < m"
      consider "x = i" | "x = j" | "x \<noteq> i" "x \<noteq> j" by blast
      then show "?g xs x \<le> ?g ?ys x"
      proof cases
        case 1
        then show ?thesis using rj yi dpos by simp
      next
        case 2
        with xm False have "doc_id (xs ! i) \<in> set rel" by simp
        with 2 show ?thesis using rj yj by simp
      next
        case 3
        then show ?thesis using yo by simp
      qed
    qed
    then have "(\<Sum>x<m. ?g xs x) \<le> (\<Sum>x<m. ?g ?ys x)"
      by (intro sum_mono) simp
    then show ?thesis by (simp only: gx)
  next
    case True
    then have jm: "j < m" and ni: "doc_id (xs ! i) \<notin> set rel" by simp_all
    have im: "i < m" using ij jm by simp
    let ?A = "{..<m} - {i} - {j}"
    have sx: "(\<Sum>x<m. ?g xs x) = ?g xs i + (?g xs j + sum (?g xs) ?A)"
      using im jm ij by (intro sum_split_two) simp_all
    have sy: "(\<Sum>x<m. ?g ?ys x) = ?g ?ys i + (?g ?ys j + sum (?g ?ys) ?A)"
      using im jm ij by (intro sum_split_two) simp_all
    have rest: "sum (?g ?ys) ?A = sum (?g xs) ?A"
      by (rule sum.cong) (simp_all add: yo)
    have "?g xs i + ?g xs j \<le> ?g ?ys i + ?g ?ys j"
      using ni rj yi yj discount_antimono [of i j] ij by simp
    then show ?thesis
      unfolding gx sx sy rest by linarith
  qed
qed


lemma ndcg_swap:
  assumes "i < j" "j < length xs" "doc_id (xs ! j) \<in> set rel"
  shows "calculate_ndcg xs rel k \<le> calculate_ndcg (xs[i := xs ! j, j := xs ! i]) rel k"
proof -
  let ?m = "slice_index (length xs) k"
  have len: "length (take ?m xs) = ?m" "length (take ?m (xs[i := xs ! j, j := xs ! i])) = ?m"
    using slice_index_le [of "length xs" k] by simp_all
  have "dcg_loop 0 1 (take ?m xs) rel \<le> dcg_loop 0 1 (take ?m (xs[i := xs ! j, j := xs ! i])) rel"
    unfolding dcg_loop_sum len using dcg_swap [OF assms, of ?m] by simp
  then show ?thesis
    by (simp add: calculate_ndcg_def py_slice_to_def Let_def divide_right_mono)
qed

lemma ideal_dcg_cong: "length rel = length rel' \<Longrightarrow> ideal_dcg rel k = ideal_dcg rel' k"
  by (simp add: ideal_dcg_def)

text \<open>
  C3, as stated: a \<open>relevant_ids\<close> list with duplicates gives the same four metrics as its
  deduplicated form. Recall divides by \<open>len(relevant)\<close>, which counts the duplicates: one
  retrieved item \<open>a\<close> has recall \<open>1/2\<close> against \<open>[a, a]\<close> and recall \<open>1\<close> against \<open>[a]\<close>.
\<close>

theorem duplicate_relevant_ids_counterexample:
  "calculate_recall_at_k [\<lparr>doc_id = ''a'', doc_content = [], similarity_score = 1\<rparr>]
     [''a'', ''a''] 5 = Inr (1 / 2) \<and>
   calculate_recall_at_k [\<lparr>doc_id = ''a'', doc_content = [], similarity_score = 1\<rparr>]
     (remdups [''a'', ''a'']) 5 = Inr 1"
  by (simp add: calculate_recall_at_k_def relevant_retrieved_def py_slice_to_def
      slice_index_def py_truediv_def)

text \<open>
  C3, amended: precision@k and MRR of a \<open>relevant_ids\<close> list are those of its deduplicated
  form. Recall@k and NDCG@k also use \<open>len(relevant_ids)\<close>, duplicates counted: they are
  the same for two lists with the same set of ids and the same length.
\<close>

theorem metrics_with_duplicate_relevant_ids:
  "calculate_precision_at_k retrieved (remdups relevant) k =
     calculate_precision_at_k retrieved relevant k \<and>
   calculate_mrr retrieved (remdups relevant) = calculate_mrr retrieved relevant \<and>
   (set relevant = set relevant' \<and> length relevant = length relevant' \<longrightarrow>
      calculate_recall_at_k retrieved relevant k = calculate_recall_at_k retrieved relevant' k \<and>
      calculate_ndcg retrieved relevant k = calculate_ndcg retrieved relevant' k)"
  using relevant_retrieved_cong [of "remdups relevant" relevant retrieved k]
    mrr_loop_cong [of "remdups relevant" relevant 1 retrieved]
    relevant_retrieved_cong [of relevant relevant' retrieved k]
    dcg_loop_cong [of relevant relevant' 0 1 "py_slice_to retrieved k"]
    ideal_dcg_cong [of relevant relevant' k]
  by (auto simp add: calculate_precision_at_k_def calculate_mrr_def calculate_recall_at_k_def
      calculate_ndcg_def)

theorem metrics_with_duplicate_relevant_ids_witness:
  "calculate_precision_at_k [\<lparr>doc_id = ''a'', doc_content = [], similarity_score = 1\<rparr>]
     (remdups [''a'', ''a'', ''b'']) 5 =
   calculate_precision_at_k [\<lparr>doc_id = ''a'', doc_content = [], similarity_score = 1\<rparr>]
     [''a'', ''a'', ''b''] 5 \<and>
   calculate_mrr [\<lparr>doc_id = ''a'', doc_content = [], similarity_score = 1\<rparr>]
     (remdups [''a'', ''a'', ''b'']) =
   calculate_mrr [\<lparr>doc_id = ''a'', doc_content = [], similarity_score = 1\<rparr>]
     [''a'', ''a'', ''b''] \<and>
   set [''a'', ''a'', ''b''] = set [''b'', ''a'', ''b''] \<and>
   length [''a'', ''a'', ''b''] = length [''b'', ''a'', ''b''] \<and>
   calculate_recall_at_k [\<lparr>doc_id = ''a'', doc_content = [], similarity_score = 1\<rparr>]
     [''a'', ''a'', ''b''] 5 =
   calculate_recall_at_k [\<lparr>doc_id = ''a'', doc_content = [], similarity_score = 1\<rparr>]
     [''b'', ''a'', ''b''] 5 \<and>
   calculate_ndcg [\<lparr>doc_id = ''a'', doc_content = [], similarity_score = 1\<rparr>]
     [''a'', ''a'', ''b''] 5 =
   calculate_ndcg [\<lparr>doc_id = ''a'', doc_content = [], similarity_score = 1\<rparr>]
     [''b'', ''a'', ''b''] 5"
proof -
  have h: "set [''a'', ''a'', ''b''] = set [''b'', ''a'', ''b''] \<and>
    length [''a'', ''a'', ''b''] = length [''b'', ''a'', ''b'']"
    by auto
  show ?thesis
    using h metrics_with_duplicate_relevant_ids
      [of "[\<lparr>doc_id = ''a'', doc_content = [], similarity_score = 1\<rparr>]"
        "[''a'', ''a'', ''b'']" 5 "[''b'', ''a'', ''b'']"]
    by blast
qed

text \<open>
  C5. With an empty accumulator \<open>get_aggregated_metrics\<close> gives the dictionary
  \<open>{"error": "No results to aggregate"}\<close> in place of the averages and leaves the
  accumulator as it was; so does \<open>evaluate_multiple_queries\<close> called with no pair.
\<close>

theorem empty_accumulator_is_an_error:
  "results self = [] \<Longrightarrow>
   get_aggregated_metrics round4 self = (Inl ''No results to aggregate'', self) \<and>
   evaluate_multiple_queries round4 retrieve self [] =
     Inr (Inl ''No results to aggregate'', self)"
  by (simp add: get_aggregated_metrics_def evaluate_multiple_queries_def bind_err_def)

theorem empty_accumulator_is_an_error_witness:
  "results \<lparr>results = []\<rparr> = [] \<and>
   get_aggregated_metrics (\<lambda>x. x) \<lparr>results = []\<rparr> =
     (Inl ''No results to aggregate'', \<lparr>results = []\<rparr>) \<and>
   evaluate_multiple_queries (\<lambda>x. x) (\<lambda>q n. []) \<lparr>results = []\<rparr> [] =
     Inr (Inl ''No results to aggregate'', \<lparr>results = []\<rparr>)"
proof -
  have h: "results \<lparr>results = []\<rparr> = []" by simp
  show ?thesis
    using h empty_accumulator_is_an_error [OF h, of "\<lambda>x. x" "\<lambda>q n. []"] by blast
qed

text \<open>
  C7. Precision@k of an empty retrieved list is 0 for \<open>k > 0\<close>; recall@k against an empty
  \<open>relevant_ids\<close> is 0 for every retrieved list and every \<open>k\<close>, with no error; MRR is 0
  when no retrieved id is relevant and 1 when the first retrieved id is relevant.
\<close>

theorem metric_boundary_values:
  "(0 < k \<longrightarrow> calculate_precision_at_k [] relevant k = Inr 0) \<and>
   calculate_recall_at_k retrieved [] k' = Inr 0 \<and>
   ((\<forall>r \<in> set retrieved. doc_id r \<notin> set relevant) \<longrightarrow>
      calculate_mrr retrieved relevant = Inr 0) \<and>
   (doc_id first \<in> set relevant \<longrightarrow> calculate_mrr (first # rest) relevant = Inr 1)"
  by (simp add: calculate_precision_at_k_def calculate_recall_at_k_def calculate_mrr_def
      relevant_retrieved_def py_slice_to_def py_truediv_def mrr_loop_none)

theorem metric_boundary_values_witness:
  "(0::int) < 5 \<and> calculate_precision_at_k [] [''c2''] 5 = Inr 0 \<and>
   calculate_recall_at_k [\<lparr>doc_id = ''c1'', doc_content = ''x'', similarity_score = 1\<rparr>] [] 5
     = Inr 0 \<and>
   doc_id \<lparr>doc_id = ''c1'', doc_content = ''x'', similarity_score = 1\<rparr> \<notin> set [''c2''] \<and>
   calculate_mrr [\<lparr>doc_id = ''c1'', doc_content = ''x'', similarity_score = 1\<rparr>] [''c2'']
     = Inr 0 \<and>
   doc_id \<lparr>doc_id = ''c2'', doc_content = ''y'', similarity_score = 1\<rparr> \<in> set [''c2''] \<and>
   calculate_mrr [\<lparr>doc_id = ''c2'', doc_content = ''y'', similarity_score = 1\<rparr>,
                  \<lparr>doc_id = ''c1'', doc_content = ''x'', similarity_score = 1\<rparr>] [''c2'']
     = Inr 1"
  using metric_boundary_values [of 5 "[''c2'']"
      "[\<lparr>doc_id = ''c1'', doc_content = ''x'', similarity_score = 1\<rparr>]" 5
      "\<lparr>doc_id = ''c2'', doc_content = ''y'', similarity_score = 1\<rparr>"
      "[\<lparr>doc_id = ''c1'', doc_content = ''x'', similarity_score = 1\<rparr>]"]
  by simp

text \<open>
  C9. For a fixed \<open>relevant_ids\<close> and every \<open>k\<close>, exchanging a relevant item at index \<open>j\<close>
  with the item at an earlier index \<open>i\<close> never lowers NDCG@k. (The item it changes places
  with may be anything; the claim's case is an item that is not relevant.)
\<close>

theorem ndcg_monotone:
  assumes "i < j" "j < length retrieved" "doc_id (retrieved ! j) \<in> set relevant"
  shows "calculate_ndcg retrieved relevant k \<le>
         calculate_ndcg (retrieved[i := retrieved ! j, j := retrieved ! i]) relevant k"
  using assms by (rule ndcg_swap)

theorem ndcg_monotone_witness:
  "(0::nat) < 1 \<and>
   1 < length [\<lparr>doc_id = ''x'', doc_content = [], similarity_score = 1\<rparr>,
               \<lparr>doc_id = ''a'', doc_content = [], similarity_score = 0\<rparr>] \<and>
   doc_id ([\<lparr>doc_id = ''x'', doc_content = [], similarity_score = 1\<rparr>,
            \<lparr>doc_id = ''a'', doc_content = [], similarity_score = 0\<rparr>] ! 1) \<in> set [''a''] \<and>
   calculate_ndcg [\<lparr>doc_id = ''x'', doc_content = [], similarity_score = 1\<rparr>,
                   \<lparr>doc_id = ''a'', doc_content = [], similarity_score = 0\<rparr>] [''a''] 5 \<le>
   calculate_ndcg [\<lparr>doc_id = ''a'', doc_content = [], similarity_score = 0\<rparr>,
                   \<lparr>doc_id = ''x'', doc_content = [], similarity_score = 1\<rparr>] [''a''] 5"
  using ndcg_monotone [of 0 1
      "[\<lparr>doc_id = ''x'', doc_content = [], similarity_score = 1\<rparr>,
        \<lparr>doc_id = ''a'', doc_content = [], similarity_score = 0\<rparr>]" "[''a'']" 5]
  by simp

text \<open>
  C10. \<open>calculate_precision_at_k\<close> raises no arithmetic error for \<open>k \<ge> 0\<close>: it returns 0
  for \<open>k = 0\<close>, without dividing, and the quotient by \<open>k\<close> for \<open>k > 0\<close>.
\<close>

theorem precision_at_k_total:
  "0 \<le> k \<Longrightarrow>
   calculate_precision_at_k retrieved relevant k =
     Inr (if k = 0 then 0 else real (relevant_retrieved retrieved relevant k) / of_int k)"
  by (simp add: calculate_precision_at_k_def py_truediv_def)

theorem precision_at_k_total_witness:
  "(0::int) \<le> 0 \<and>
   calculate_precision_at_k [\<lparr>doc_id = ''a'', doc_content = [], similarity_score = 1\<rparr>]
     [''a''] 0 = Inr 0"
  using precision_at_k_total
    [of 0 "[\<lparr>doc_id = ''a'', doc_content = [], similarity_score = 1\<rparr>]" "[''a'']"]
  by simp

section \<open>Properties of the extractor\<close>

text \<open>The rules of the extractor on the example text of the specification.\<close>

lemma example_ph:
  "extract_ph_range MetadataExtractor_init
     ''pH 4.2 aW 0.97, 800 ppm Sodium Benzoate inhibits Zygosaccharomyces bailii''
   = Some (Range 4 2)"
  by code_simp

lemma example_aw:
  "extract_aw MetadataExtractor_init
     ''pH 4.2 aW 0.97, 800 ppm Sodium Benzoate inhibits Zygosaccharomyces bailii''
   = Some (Single (97 / 100))"
  by code_simp

lemma example_concentration:
  "extract_concentration MetadataExtractor_init
     ''pH 4.2 aW 0.97, 800 ppm Sodium Benzoate inhibits Zygosaccharomyces bailii''
   = Inr (Some \<lparr>concentration_value = 800, concentration_unit = ''ppm''\<rparr>)"
  by code_simp

lemma example_microorganism:
  "extract_microorganism MetadataExtractor_init
     ''pH 4.2 aW 0.97, 800 ppm Sodium Benzoate inhibits Zygosaccharomyces bailii''
   = Some [''Zygosaccharomyces bailii'']"
  by code_simp

lemma example_conservant:
  "extract_conservant MetadataExtractor_init
     ''pH 4.2 aW 0.97, 800 ppm Sodium Benzoate inhibits Zygosaccharomyces bailii''
   = None"
  by code_simp

lemma short_example:
  "extract_metadata MetadataExtractor_init ''pH 7'' =
     Inr \<lparr>ph = Some (Single 7), aw = None, concentration = None,
          found_microorganisms = None, conservants = None, has_numeric_data = False\<rparr>"
  by code_simp

text \<open>
  C2. The claim is that the example text gives the acidity as the single value 4.2. The
  code gives the range from 4.0 to 2.0: the range pattern is tried first, its separator
  is optional, and the matcher backtracks to split \<open>4.2\<close> into the groups \<open>4.\<close> and \<open>2\<close>.
  The other fields are as the claim says: water activity 0.97, concentration 800 ppm,
  the organism found, \<open>has_numeric_data\<close> true.
\<close>

theorem extraction_example_gives_a_range:
  "extract_metadata MetadataExtractor_init
     ''pH 4.2 aW 0.97, 800 ppm Sodium Benzoate inhibits Zygosaccharomyces bailii''
   = Inr \<lparr>ph = Some (Range 4 2),
          aw = Some (Single (97 / 100)),
          concentration = Some \<lparr>concentration_value = 800, concentration_unit = ''ppm''\<rparr>,
          found_microorganisms = Some [''Zygosaccharomyces bailii''],
          conservants = None,
          has_numeric_data = True\<rparr>"
  by (simp add: extract_metadata_def bind_err_def example_ph example_aw example_concentration
      example_microorganism example_conservant)

lemma extract_chunk_metadata_Inr:
  assumes "extract_chunk_metadata self h a = Inr (h1, r1)"
  obtains t md where "chunk_content (h ! a) = Inr t" "extract_metadata self t = Inr md"
    "h1 = h @ [(h ! a)(''extracted_metadata'' \<mapsto> PMeta md)]" "r1 = length h"
  using assms unfolding extract_chunk_metadata_def bind_err_def
  by (auto split: sum.splits)

lemma chunk_content_cong: "c ''content'' = c' ''content'' \<Longrightarrow> chunk_content c = chunk_content c'"
  by (simp add: chunk_content_def)

text \<open>
  C8. A call of \<open>extract_chunk_metadata\<close> that returns leaves every dictionary that existed
  as it was, the chunk it was given among them. A second call on the same chunk returns
  a dictionary equal to the first one, again without changing an existing dictionary.
  The \<open>extracted_metadata\<close> entry depends on the chunk through its \<open>content\<close> only. The
  rules themselves (\<open>extract_ph_range\<close>, \<open>extract_aw\<close>, \<open>extract_concentration\<close>,
  \<open>extract_microorganism\<close>, \<open>extract_conservant\<close>) take a string, which cannot be
  changed, and are functions of it and of the extractor's list of names.
\<close>

theorem extraction_pure_and_deterministic:
  assumes a: "a < length h" and run: "extract_chunk_metadata self h a = Inr (h1, r1)"
  shows "(\<forall>b < length h. h1 ! b = h ! b) \<and>
         (\<exists>h2 r2. extract_chunk_metadata self h1 a = Inr (h2, r2) \<and> h2 ! r2 = h2 ! r1 \<and>
            (\<forall>b < length h1. h2 ! b = h1 ! b)) \<and>
         (\<forall>h' a' h1' r1'. (h' ! a') ''content'' = (h ! a) ''content'' \<and>
              extract_chunk_metadata self h' a' = Inr (h1', r1') \<longrightarrow>
            (h1' ! r1') ''extracted_metadata'' = (h1 ! r1) ''extracted_metadata'')"
proof -
  from run obtain t md where t: "chunk_content (h ! a) = Inr t"
    and md: "extract_metadata self t = Inr md"
    and h1: "h1 = h @ [(h ! a)(''extracted_metadata'' \<mapsto> PMeta md)]" and r1: "r1 = length h"
    by (rule extract_chunk_metadata_Inr)
  have same: "\<forall>b < length h. h1 ! b = h ! b"
    by (simp add: h1 nth_append)
  have ha: "h1 ! a = h ! a" using a same by simp
  let ?h2 = "h1 @ [(h ! a)(''extracted_metadata'' \<mapsto> PMeta md)]"
  have again: "extract_chunk_metadata self h1 a = Inr (?h2, length h1)"
    by (simp add: extract_chunk_metadata_def bind_err_def ha t md)
  have eq: "?h2 ! length h1 = ?h2 ! r1"
    by (simp add: h1 r1 nth_append)
  have same2: "\<forall>b < length h1. ?h2 ! b = h1 ! b"
    by (simp add: nth_append)
  have other: "\<forall>h' a' h1' r1'. (h' ! a') ''content'' = (h ! a) ''content'' \<and>
              extract_chunk_metadata self h' a' = Inr (h1', r1') \<longrightarrow>
            (h1' ! r1') ''extracted_metadata'' = (h1 ! r1) ''extracted_metadata''"
  proof (intro allI impI)
    fix h' a' h1' r1'
    assume p: "(h' ! a') ''content'' = (h ! a) ''content'' \<and>
      extract_chunk_metadata self h' a' = Inr (h1', r1')"
    then have c: "chunk_content (h' ! a') = Inr t"
      using chunk_content_cong [of "h' ! a'" "h ! a"] t by simp
    from p obtain t' md' where t': "chunk_content (h' ! a') = Inr t'"
      and md': "extract_metadata self t' = Inr md'"
      and h1': "h1' = h' @ [(h' ! a')(''extracted_metadata'' \<mapsto> PMeta md')]"
      and r1': "r1' = length h'"
      by (blast elim: extract_chunk_metadata_Inr)
    from c t' have "t' = t" by simp
    with md md' have "md' = md" by simp
    then show "(h1' ! r1') ''extracted_metadata'' = (h1 ! r1) ''extracted_metadata''"
      by (simp add: h1 r1 h1' r1')
  qed
  from same again eq same2 other show ?thesis by blast
qed


theorem extraction_pure_and_deterministic_witness:
  "(0::nat) < length [[''content'' \<mapsto> PStr ''pH 7'']] \<and>
   extract_chunk_metadata MetadataExtractor_init [[''content'' \<mapsto> PStr ''pH 7'']] 0 =
     Inr ([[''content'' \<mapsto> PStr ''pH 7''],
           [''content'' \<mapsto> PStr ''pH 7'',
            ''extracted_metadata'' \<mapsto>
              PMeta \<lparr>ph = Some (Single 7), aw = None, concentration = None,
                     found_microorganisms = None, conservants = None,
                     has_numeric_data = False\<rparr>]], 1) \<and>
   (\<exists>h2 r2.
      extract_chunk_metadata MetadataExtractor_init
        [[''content'' \<mapsto> PStr ''pH 7''],
         [''content'' \<mapsto> PStr ''pH 7'',
          ''extracted_metadata'' \<mapsto>
            PMeta \<lparr>ph = Some (Single 7), aw = None, concentration = None,
                   found_microorganisms = None, conservants = None,
                   has_numeric_data = False\<rparr>]] 0 = Inr (h2, r2) \<and>
      h2 ! r2 = h2 ! 1)"
proof -
  have len: "(0::nat) < length [[''content'' \<mapsto> PStr ''pH 7'']]" by simp
  have run: "extract_chunk_metadata MetadataExtractor_init [[''content'' \<mapsto> PStr ''pH 7'']] 0 =
     Inr ([[''content'' \<mapsto> PStr ''pH 7''],
           [''content'' \<mapsto> PStr ''pH 7'',
            ''extracted_metadata'' \<mapsto>
              PMeta \<lparr>ph = Some (Single 7), aw = None, concentration = None,
                     found_microorganisms = None, conservants = None,
                     has_numeric_data = False\<rparr>]], 1)"
    by (simp add: extract_chunk_metadata_def bind_err_def chunk_content_def short_example)
  from extraction_pure_and_deterministic [OF len run] len run show ?thesis
    by blast
qed

end
